theory Spec2Isabelle
  imports Complex_Main
begin

section \<open>Tensors\<close>

text \<open>
  A tensor is its shape and its elements in row-major order. The elements are
  modelled as real numbers: the arithmetic of the pipeline is exact here, and the
  rounding, the infinities and the NaN of a floating-point element type are not
  part of the model. A tensor is well formed when it has as many elements as its
  shape says.
\<close>

datatype tensor = Tensor (shape: "nat list") (vals: "real list")

definition wf_tensor :: "tensor \<Rightarrow> bool" where
  "wf_tensor x \<longleftrightarrow> length (vals x) = prod_list (shape x)"

text \<open>\<^verbatim>\<open>x.ndim\<close>\<close>

definition ndim :: "tensor \<Rightarrow> nat" where
  "ndim x = length (shape x)"

text \<open>\<^verbatim>\<open>x[t]\<close>: the slice of index \<open>t\<close> along axis 0.\<close>

definition select0 :: "tensor \<Rightarrow> nat \<Rightarrow> tensor" where
  "select0 x t =
     (let n = prod_list (tl (shape x))
      in Tensor (tl (shape x)) (take n (drop (t * n) (vals x))))"

text \<open>\<^verbatim>\<open>torch.stack(out_seq, dim=0)\<close> of a non-empty list of tensors of one shape.\<close>

definition stack :: "tensor list \<Rightarrow> tensor" where
  "stack out_seq = Tensor (length out_seq # shape (hd out_seq)) (concat (map vals out_seq))"

text \<open>\<^verbatim>\<open>beta * s + one_m * x[t]\<close>, element by element on two tensors of one shape.\<close>

definition ema_step :: "real \<Rightarrow> real \<Rightarrow> tensor \<Rightarrow> tensor \<Rightarrow> tensor" where
  "ema_step beta one_m s xt =
     Tensor (shape s) (map2 (\<lambda>a b. beta * a + one_m * b) (vals s) (vals xt))"

text \<open>
  \<^verbatim>\<open>x * gains\<close> with \<open>gains\<close> viewed as \<open>[1, 5, 1]\<close> and \<open>x\<close> of shape \<open>[T, 5, C]\<close>:
  the element of flat index \<open>i\<close> lies in band \<open>(i div C) mod 5\<close>.
\<close>

definition mul_gains :: "tensor \<Rightarrow> real list \<Rightarrow> tensor" where
  "mul_gains x gains =
     (let C = shape x ! 2
      in Tensor (shape x)
           (map (\<lambda>i. vals x ! i * gains ! ((i div C) mod 5)) [0..<length (vals x)]))"

text \<open>
  \<^verbatim>\<open>_rms\<close>: \<^verbatim>\<open>x.pow(2).mean(dim=-1, keepdim=True).sqrt().clamp_min(eps)\<close>, one value
  for each row of the last axis. With an empty last axis torch takes the mean of
  nothing, a NaN; the quotient by \<open>real C\<close> is then some real here, and the broadcast
  over the empty rows never reads it.
\<close>

definition rms :: "tensor \<Rightarrow> real \<Rightarrow> tensor" where
  "rms x eps =
     (let C = last (shape x); n = prod_list (butlast (shape x))
      in Tensor (butlast (shape x) @ [1])
           (map (\<lambda>k. max (sqrt (sum_list (map (\<lambda>v. v ^ 2) (take C (drop (k * C) (vals x))))
                                  / real C)) eps)
              [0..<n]))"

text \<open>\<^verbatim>\<open>a / b\<close> on two tensors of one shape.\<close>

definition div_tensor :: "tensor \<Rightarrow> tensor \<Rightarrow> tensor" where
  "div_tensor a b = Tensor (shape a) (map2 (\<lambda>u v. u / v) (vals a) (vals b))"

text \<open>
  \<^verbatim>\<open>x * r\<close> with \<open>x\<close> of shape \<open>[T, 5, C]\<close> and \<open>r\<close> of shape \<open>[T, 5, 1]\<close>: the element
  of flat index \<open>i\<close> is scaled by the entry \<open>i div C\<close> of \<open>r\<close>.
\<close>

definition mul_rows :: "tensor \<Rightarrow> tensor \<Rightarrow> tensor" where
  "mul_rows x r =
     (let C = last (shape x)
      in Tensor (shape x) (map (\<lambda>i. vals x ! i * vals r ! (i div C)) [0..<length (vals x)]))"

text \<open>
  \<^verbatim>\<open>x.mean()\<close> over all elements. On an empty array torch returns NaN; the value
  here is then some real, and the clamp of an empty array never reads it.
\<close>

definition mean :: "tensor \<Rightarrow> real" where
  "mean x = sum_list (vals x) / real (length (vals x))"

text \<open>
  \<^verbatim>\<open>x.std()\<close> over all elements. The default of torch is Bessel's correction: the
  squared deviations are divided by the number of elements minus one. An array of
  shape \<open>[T, 5, C]\<close> is empty or has five elements at least, so the divisor is
  positive on every array whose elements the clamp reads.
\<close>

definition std :: "tensor \<Rightarrow> real" where
  "std x =
     sqrt (sum_list (map (\<lambda>v. (v - mean x) ^ 2) (vals x)) / (real (length (vals x)) - 1))"

text \<open>\<^verbatim>\<open>x.clamp(lo, hi)\<close>\<close>

definition clamp :: "tensor \<Rightarrow> real \<Rightarrow> real \<Rightarrow> tensor" where
  "clamp x lo hi = Tensor (shape x) (map (\<lambda>v. min (max v lo) hi) (vals x))"

section \<open>The node and its preset\<close>

record node =
  PRESET_GAINS :: "real list"
  PRESET_EMA_BETA :: real
  PRESET_PRESERVE_RMS :: bool
  PRESET_ALPHA_MIX :: real
  PRESET_GLOBAL_GAIN :: real
  PRESET_CLAMP_STD :: real

definition HuMoLipsyncSuppress :: node where
  "HuMoLipsyncSuppress =
     \<lparr> PRESET_GAINS = [4.00, 4.00, 0.50, 0.01, 0.01],
       PRESET_EMA_BETA = 0.90,
       PRESET_PRESERVE_RMS = False,
       PRESET_ALPHA_MIX = 1.00,
       PRESET_GLOBAL_GAIN = 1.00,
       PRESET_CLAMP_STD = 0.00 \<rparr>"

section \<open>The stages of apply\<close>

text \<open>Temporal EMA smoothing: the loop over \<^verbatim>\<open>range(1, x.shape[0])\<close>.\<close>

definition ema_loop :: "real \<Rightarrow> real \<Rightarrow> tensor \<Rightarrow> nat list \<Rightarrow> tensor \<times> tensor list
    \<Rightarrow> tensor \<times> tensor list" where
  "ema_loop beta one_m x ts =
     fold (\<lambda>t (s, out_seq). let s' = ema_step beta one_m s (select0 x t)
                             in (s', out_seq @ [s'])) ts"

definition x_smooth :: "node \<Rightarrow> tensor \<Rightarrow> tensor" where
  "x_smooth self x =
     (if shape x ! 0 > 1 \<and> PRESET_EMA_BETA self > 0 then
        let s = select0 x 0;
            beta = PRESET_EMA_BETA self;
            one_m = 1 - beta
        in stack (snd (ema_loop beta one_m x [1..<shape x ! 0] (s, [s])))
      else x)"

text \<open>The gains, and the RMS preservation when the preset asks for it.\<close>

definition x_edit :: "node \<Rightarrow> tensor \<Rightarrow> tensor \<Rightarrow> tensor" where
  "x_edit self x_orig xs =
     (let e = mul_gains xs (PRESET_GAINS self)
      in if PRESET_PRESERVE_RMS self then
           let rms_orig = rms x_orig (1 / 10 ^ 6);
               rms_edit = rms e (1 / 10 ^ 6)
           in mul_rows e (div_tensor rms_orig rms_edit)
         else e)"

text \<open>The residual blend \<^verbatim>\<open>(1.0 - alpha) * x_orig + alpha * x_edit\<close>.\<close>

definition blend :: "node \<Rightarrow> tensor \<Rightarrow> tensor \<Rightarrow> tensor" where
  "blend self x_orig e =
     (let alpha = PRESET_ALPHA_MIX self
      in Tensor (shape x_orig)
           (map2 (\<lambda>u v. (1 - alpha) * u + alpha * v) (vals x_orig) (vals e)))"

text \<open>The global gain, skipped when it is 1.\<close>

definition global_gain :: "node \<Rightarrow> tensor \<Rightarrow> tensor" where
  "global_gain self m =
     (if PRESET_GLOBAL_GAIN self \<noteq> 1 then
        Tensor (shape m) (map (\<lambda>v. v * PRESET_GLOBAL_GAIN self) (vals m))
      else m)"

text \<open>The clamp around the mean, skipped when \<open>PRESET_CLAMP_STD\<close> is not positive.\<close>

definition clamp_lo :: "node \<Rightarrow> tensor \<Rightarrow> real" where
  "clamp_lo self m = mean m - PRESET_CLAMP_STD self * max (std m) (1 / 10 ^ 6)"

definition clamp_hi :: "node \<Rightarrow> tensor \<Rightarrow> real" where
  "clamp_hi self m = mean m + PRESET_CLAMP_STD self * max (std m) (1 / 10 ^ 6)"

definition clamp_stage :: "node \<Rightarrow> tensor \<Rightarrow> tensor" where
  "clamp_stage self m =
     (if PRESET_CLAMP_STD self > 0 then clamp m (clamp_lo self m) (clamp_hi self m) else m)"

text \<open>The array before the clamp, and the final \<open>x_mixed\<close>.\<close>

definition pre_clamp :: "node \<Rightarrow> tensor \<Rightarrow> tensor" where
  "pre_clamp self x = global_gain self (blend self x (x_edit self x (x_smooth self x)))"

definition x_mixed :: "node \<Rightarrow> tensor \<Rightarrow> tensor" where
  "x_mixed self x = clamp_stage self (pre_clamp self x)"

section \<open>Objects, and the method apply\<close>

text \<open>
  The container and its arrays are objects: a heap is the list of the objects
  allocated so far, and an address is a position in it. A dictionary maps its keys
  to addresses, so that a shallow copy shares the values of the original. Every
  tensor operation of \<open>apply\<close> is out of place, so the numeric stages are functions
  on tensor values, and only the copy of the dictionary and the final array are
  allocated in the model.
\<close>

type_synonym addr = nat

datatype obj = DictObj "string \<Rightarrow> addr option" | TensorObj tensor

type_synonym heap = "obj list"

definition lookup :: "heap \<Rightarrow> addr \<Rightarrow> obj option" where
  "lookup h a = (if a < length h then Some (h ! a) else None)"

definition alloc :: "heap \<Rightarrow> obj \<Rightarrow> heap \<times> addr" where
  "alloc h ob = (h @ [ob], length h)"

text \<open>
  Both checks of \<open>apply\<close> raise \<^verbatim>\<open>ValueError\<close>: one for the missing key, one for the
  shape, whose message holds \<^verbatim>\<open>tuple(x.shape)\<close>. \<^verbatim>\<open>view(1, 5, 1)\<close> raises
  \<^verbatim>\<open>RuntimeError\<close> on a gain list that has not five entries; \<^verbatim>\<open>dict(image_embeds)\<close>
  raises \<^verbatim>\<open>TypeError\<close> on an object that is no mapping, and \<^verbatim>\<open>x.ndim\<close> raises
  \<^verbatim>\<open>AttributeError\<close> on a value that is no tensor.
\<close>

datatype error =
    ValueError_missing_key
  | ValueError_shape "nat list"
  | RuntimeError_view
  | TypeError
  | AttributeError

definition key :: string where
  "key = ''humo_audio_emb''"

definition apply_node :: "node \<Rightarrow> heap \<Rightarrow> addr \<Rightarrow> bool \<Rightarrow> error + heap \<times> addr" where
  "apply_node self h image_embeds enabled =
     (if \<not> enabled then Inr (h, image_embeds)
      else case lookup h image_embeds of
        Some (DictObj d) \<Rightarrow>
          (let (h1, embeds) = alloc h (DictObj d)
           in case d key of
                None \<Rightarrow> Inl ValueError_missing_key
              | Some p \<Rightarrow>
                  (case lookup h1 p of
                     Some (TensorObj x) \<Rightarrow>
                       if ndim x \<noteq> 3 \<or> shape x ! 1 \<noteq> 5 then Inl (ValueError_shape (shape x))
                       else if length (PRESET_GAINS self) \<noteq> 5 then Inl RuntimeError_view
                       else
                         (let (h2, q) = alloc h1 (TensorObj (x_mixed self x))
                          in Inr (h2[embeds := DictObj (d(key \<mapsto> q))], embeds))
                   | _ \<Rightarrow> Inl AttributeError))
      | _ \<Rightarrow> Inl TypeError)"

section \<open>The recurrence of the smoother, as the specification writes it\<close>

text \<open>
  The specification defines the smoothed sequence by \<open>s\<^sub>0 = x\<^sub>0\<close> and
  \<open>s\<^sub>t = beta * s\<^sub>t\<^sub>-\<^sub>1 + (1 - beta) * x\<^sub>t\<close>. \<open>ema_spec beta n xs t j\<close> is the entry
  \<open>j\<close> of \<open>s\<^sub>t\<close>, for frames of \<open>n\<close> entries stored one after the other in \<open>xs\<close>.
\<close>

fun ema_spec :: "real \<Rightarrow> nat \<Rightarrow> real list \<Rightarrow> nat \<Rightarrow> nat \<Rightarrow> real" where
  "ema_spec beta n xs 0 j = xs ! j"
| "ema_spec beta n xs (Suc t) j =
     beta * ema_spec beta n xs t j + (1 - beta) * xs ! (Suc t * n + j)"

text \<open>
  The invariant of the loop after the frames below \<open>k\<close>: \<open>out_seq\<close> holds \<open>k\<close> frames
  of the shape of a frame of \<open>x\<close>, frame \<open>t\<close> is \<open>s\<^sub>t\<close>, and \<open>s\<close> is the last of them.
\<close>

definition ema_inv :: "real \<Rightarrow> tensor \<Rightarrow> nat \<Rightarrow> tensor \<times> tensor list \<Rightarrow> bool" where
  "ema_inv beta x k st \<longleftrightarrow>
     (let n = prod_list (tl (shape x)) in
      length (snd st) = k \<and> fst st = last (snd st) \<and>
      (\<forall>t<k. shape (snd st ! t) = tl (shape x) \<and> length (vals (snd st ! t)) = n \<and>
         (\<forall>j<n. vals (snd st ! t) ! j = ema_spec beta n (vals x) t j)))"


section \<open>The same stages on an element type with infinities\<close>

text \<open>
  The real numbers of the model above have no overflow and no infinity, and a zero
  weight cancels its operand there. A floating-point element type has both: the
  product of 0 and an infinity is NaN. The stages are therefore modelled a second
  time, on values that are a real number, one of the two infinities or NaN. A
  finite result is kept as the real it is when its magnitude is below the overflow
  threshold of the element type, so rounding within the range is still left out,
  and becomes an infinity of its sign otherwise; the infinities and NaN follow
  IEEE 754. Signed zeros are not told apart.
\<close>

datatype fval = Fin real | PInf | NInf | NaN

datatype dtype = Float16 | BFloat16 | Float32 | Float64

text \<open>
  The least magnitude that rounds to an infinity: \<open>2 ^ emax * (2 - 1 / 2 ^ p)\<close> for a
  format of greatest exponent \<open>emax\<close> and precision \<open>p\<close>, that is 65520 for
  \<open>float16\<close>.
\<close>

fun overflow_at :: "dtype \<Rightarrow> real" where
  "overflow_at Float16 = 2 ^ 16 - 2 ^ 4"
| "overflow_at BFloat16 = 2 ^ 128 - 2 ^ 119"
| "overflow_at Float32 = 2 ^ 128 - 2 ^ 103"
| "overflow_at Float64 = 2 ^ 1024 - 2 ^ 970"

definition rnd :: "dtype \<Rightarrow> real \<Rightarrow> fval" where
  "rnd dt r =
     (if overflow_at dt \<le> r then PInf else if r \<le> - overflow_at dt then NInf else Fin r)"

fun finite_f :: "fval \<Rightarrow> bool" where
  "finite_f (Fin r) = True"
| "finite_f v = False"

text \<open>
  A value that a tensor of the element type can hold.
\<close>

fun in_range :: "dtype \<Rightarrow> fval \<Rightarrow> bool" where
  "in_range dt (Fin r) = (\<bar>r\<bar> < overflow_at dt)"
| "in_range dt v = True"

fun fneg :: "fval \<Rightarrow> fval" where
  "fneg (Fin a) = Fin (- a)"
| "fneg PInf = NInf"
| "fneg NInf = PInf"
| "fneg NaN = NaN"

fun fmul :: "dtype \<Rightarrow> fval \<Rightarrow> fval \<Rightarrow> fval" where
  "fmul dt (Fin a) (Fin b) = rnd dt (a * b)"
| "fmul dt NaN v = NaN"
| "fmul dt v NaN = NaN"
| "fmul dt (Fin a) PInf = (if a = 0 then NaN else if 0 < a then PInf else NInf)"
| "fmul dt (Fin a) NInf = (if a = 0 then NaN else if 0 < a then NInf else PInf)"
| "fmul dt PInf (Fin b) = (if b = 0 then NaN else if 0 < b then PInf else NInf)"
| "fmul dt NInf (Fin b) = (if b = 0 then NaN else if 0 < b then NInf else PInf)"
| "fmul dt PInf PInf = PInf"
| "fmul dt PInf NInf = NInf"
| "fmul dt NInf PInf = NInf"
| "fmul dt NInf NInf = PInf"

fun fadd :: "dtype \<Rightarrow> fval \<Rightarrow> fval \<Rightarrow> fval" where
  "fadd dt (Fin a) (Fin b) = rnd dt (a + b)"
| "fadd dt NaN v = NaN"
| "fadd dt v NaN = NaN"
| "fadd dt PInf NInf = NaN"
| "fadd dt NInf PInf = NaN"
| "fadd dt PInf v = PInf"
| "fadd dt NInf v = NInf"
| "fadd dt v PInf = PInf"
| "fadd dt v NInf = NInf"

definition fsub :: "dtype \<Rightarrow> fval \<Rightarrow> fval \<Rightarrow> fval" where
  "fsub dt a b = fadd dt a (fneg b)"

datatype ftensor = FTensor (fshape: "nat list") (fvals: "fval list")

definition wf_ftensor :: "dtype \<Rightarrow> ftensor \<Rightarrow> bool" where
  "wf_ftensor dt x \<longleftrightarrow>
     length (fvals x) = prod_list (fshape x) \<and> list_all (in_range dt) (fvals x)"

text \<open>
  The functions of torch that only the RMS preservation and the clamp use: the
  reductions \<^verbatim>\<open>mean(dim=-1, keepdim=True)\<close>, \<^verbatim>\<open>mean()\<close> and \<^verbatim>\<open>std()\<close>, and
  \<^verbatim>\<open>sqrt\<close>, \<^verbatim>\<open>clamp_min\<close>, \<^verbatim>\<open>/\<close> and \<^verbatim>\<open>clamp\<close>. What they return on sums that
  overflow, on infinities and on NaN depends on the kernel that runs them, so they
  are parameters here, and what is proved holds for all of them.
\<close>

record torch =
  mean_last :: "ftensor \<Rightarrow> ftensor"
  sqrt_t :: "ftensor \<Rightarrow> ftensor"
  clamp_min :: "ftensor \<Rightarrow> real \<Rightarrow> ftensor"
  div_t :: "ftensor \<Rightarrow> ftensor \<Rightarrow> ftensor"
  mean_all :: "ftensor \<Rightarrow> ftensor"
  std_all :: "ftensor \<Rightarrow> ftensor"
  clamp_t :: "ftensor \<Rightarrow> ftensor \<Rightarrow> ftensor \<Rightarrow> ftensor"

text \<open>
  \<^verbatim>\<open>x[t]\<close>, \<^verbatim>\<open>torch.stack\<close>, the step and the loop of the smoother, as above.
  The constants \<^verbatim>\<open>beta\<close>, \<^verbatim>\<open>gains\<close> and \<^verbatim>\<open>alpha\<close> are tensors of the element
  type of \<open>x\<close>.
\<close>

definition select0_f :: "ftensor \<Rightarrow> nat \<Rightarrow> ftensor" where
  "select0_f x t =
     (let n = prod_list (tl (fshape x))
      in FTensor (tl (fshape x)) (take n (drop (t * n) (fvals x))))"

definition stack_f :: "ftensor list \<Rightarrow> ftensor" where
  "stack_f out_seq =
     FTensor (length out_seq # fshape (hd out_seq)) (concat (map fvals out_seq))"

definition ema_step_f :: "dtype \<Rightarrow> fval \<Rightarrow> fval \<Rightarrow> ftensor \<Rightarrow> ftensor \<Rightarrow> ftensor" where
  "ema_step_f dt beta one_m s xt =
     FTensor (fshape s)
       (map2 (\<lambda>a b. fadd dt (fmul dt beta a) (fmul dt one_m b)) (fvals s) (fvals xt))"

definition ema_loop_f :: "dtype \<Rightarrow> fval \<Rightarrow> fval \<Rightarrow> ftensor \<Rightarrow> nat list
    \<Rightarrow> ftensor \<times> ftensor list \<Rightarrow> ftensor \<times> ftensor list" where
  "ema_loop_f dt beta one_m x ts =
     fold (\<lambda>t (s, out_seq). let s' = ema_step_f dt beta one_m s (select0_f x t)
                             in (s', out_seq @ [s'])) ts"

definition x_smooth_f :: "dtype \<Rightarrow> node \<Rightarrow> ftensor \<Rightarrow> ftensor" where
  "x_smooth_f dt self x =
     (if fshape x ! 0 > 1 \<and> PRESET_EMA_BETA self > 0 then
        let s = select0_f x 0;
            beta = rnd dt (PRESET_EMA_BETA self);
            one_m = fsub dt (Fin 1) beta
        in stack_f (snd (ema_loop_f dt beta one_m x [1..<fshape x ! 0] (s, [s])))
      else x)"

definition mul_gains_f :: "dtype \<Rightarrow> ftensor \<Rightarrow> real list \<Rightarrow> ftensor" where
  "mul_gains_f dt x gains =
     (let C = fshape x ! 2
      in FTensor (fshape x)
           (map (\<lambda>i. fmul dt (fvals x ! i) (rnd dt (gains ! ((i div C) mod 5))))
              [0..<length (fvals x)]))"

text \<open>
  \<^verbatim>\<open>_rms\<close>, with \<^verbatim>\<open>x.pow(2)\<close> as the product of each element with itself, and the
  product with a tensor of shape \<open>[T, 5, 1]\<close>.
\<close>

definition pow2_f :: "dtype \<Rightarrow> ftensor \<Rightarrow> ftensor" where
  "pow2_f dt x = FTensor (fshape x) (map (\<lambda>v. fmul dt v v) (fvals x))"

definition rms_f :: "torch \<Rightarrow> dtype \<Rightarrow> ftensor \<Rightarrow> real \<Rightarrow> ftensor" where
  "rms_f R dt x eps = clamp_min R (sqrt_t R (mean_last R (pow2_f dt x))) eps"

definition mul_rows_f :: "dtype \<Rightarrow> ftensor \<Rightarrow> ftensor \<Rightarrow> ftensor" where
  "mul_rows_f dt x r =
     (let C = last (fshape x)
      in FTensor (fshape x)
           (map (\<lambda>i. fmul dt (fvals x ! i) (fvals r ! (i div C))) [0..<length (fvals x)]))"

definition x_edit_f :: "torch \<Rightarrow> dtype \<Rightarrow> node \<Rightarrow> ftensor \<Rightarrow> ftensor \<Rightarrow> ftensor" where
  "x_edit_f R dt self x_orig xs =
     (let e = mul_gains_f dt xs (PRESET_GAINS self)
      in if PRESET_PRESERVE_RMS self then
           let rms_orig = rms_f R dt x_orig (1 / 10 ^ 6);
               rms_edit = rms_f R dt e (1 / 10 ^ 6)
           in mul_rows_f dt e (div_t R rms_orig rms_edit)
         else e)"

definition blend_f :: "dtype \<Rightarrow> node \<Rightarrow> ftensor \<Rightarrow> ftensor \<Rightarrow> ftensor" where
  "blend_f dt self x_orig e =
     (let alpha = rnd dt (PRESET_ALPHA_MIX self)
      in FTensor (fshape x_orig)
           (map2 (\<lambda>u v. fadd dt (fmul dt (fsub dt (Fin 1) alpha) u) (fmul dt alpha v))
              (fvals x_orig) (fvals e)))"

definition global_gain_f :: "dtype \<Rightarrow> node \<Rightarrow> ftensor \<Rightarrow> ftensor" where
  "global_gain_f dt self m =
     (if PRESET_GLOBAL_GAIN self \<noteq> 1 then
        FTensor (fshape m) (map (\<lambda>v. fmul dt v (rnd dt (PRESET_GLOBAL_GAIN self))) (fvals m))
      else m)"

text \<open>
  \<^verbatim>\<open>k * std\<close> for a number \<open>k\<close>, and \<^verbatim>\<open>mean - t\<close> and \<^verbatim>\<open>mean + t\<close>, on the tensors
  without axes that \<^verbatim>\<open>mean()\<close> and \<^verbatim>\<open>std()\<close> return.
\<close>

definition scale_f :: "dtype \<Rightarrow> real \<Rightarrow> ftensor \<Rightarrow> ftensor" where
  "scale_f dt k t = FTensor (fshape t) (map (\<lambda>v. fmul dt (rnd dt k) v) (fvals t))"

definition sub_f :: "dtype \<Rightarrow> ftensor \<Rightarrow> ftensor \<Rightarrow> ftensor" where
  "sub_f dt a b = FTensor (fshape a) (map2 (fsub dt) (fvals a) (fvals b))"

definition add_f :: "dtype \<Rightarrow> ftensor \<Rightarrow> ftensor \<Rightarrow> ftensor" where
  "add_f dt a b = FTensor (fshape a) (map2 (fadd dt) (fvals a) (fvals b))"

definition clamp_stage_f :: "torch \<Rightarrow> dtype \<Rightarrow> node \<Rightarrow> ftensor \<Rightarrow> ftensor" where
  "clamp_stage_f R dt self m =
     (if PRESET_CLAMP_STD self > 0 then
        let mean = mean_all R m;
            std = clamp_min R (std_all R m) (1 / 10 ^ 6);
            lo = sub_f dt mean (scale_f dt (PRESET_CLAMP_STD self) std);
            hi = add_f dt mean (scale_f dt (PRESET_CLAMP_STD self) std)
        in clamp_t R m lo hi
      else m)"

definition x_mixed_f :: "torch \<Rightarrow> dtype \<Rightarrow> node \<Rightarrow> ftensor \<Rightarrow> ftensor" where
  "x_mixed_f R dt self x =
     clamp_stage_f R dt self
       (global_gain_f dt self (blend_f dt self x (x_edit_f R dt self x (x_smooth_f dt self x))))"

text \<open>
  A frame of \<open>x\<close>: a tensor of the shape and the size of \<^verbatim>\<open>x[t]\<close>.
\<close>

definition frame_ok :: "ftensor \<Rightarrow> ftensor \<Rightarrow> bool" where
  "frame_ok x y \<longleftrightarrow>
     fshape y = tl (fshape x) \<and> length (fvals y) = prod_list (tl (fshape x))"

section \<open>Inputs of the examples\<close>

definition x1 :: tensor where
  "x1 = Tensor [2, 1, 2] [1, 1, 2, 2]"

definition x6 :: tensor where
  "x6 = Tensor [2, 5, 4] (replicate 20 1 @ replicate 20 2)"

definition h6 :: heap where
  "h6 = [DictObj [key \<mapsto> 1], TensorObj x6]"

definition h3 :: heap where
  "h3 = [DictObj [key \<mapsto> 1], TensorObj (Tensor [2, 3] [1, 2, 3, 4, 5, 6])]"

definition h4 :: heap where
  "h4 = [DictObj Map.empty]"

definition h10 :: heap where
  "h10 = [DictObj [key \<mapsto> 1], TensorObj (Tensor [0, 5, 4] [])]"



definition node9 :: node where
  "node9 = HuMoLipsyncSuppress \<lparr> PRESET_ALPHA_MIX := 0 \<rparr>"

definition xf8 :: ftensor where
  "xf8 = FTensor [1, 5, 1] [PInf, Fin 1, Fin 1, Fin 1, Fin 1]"

definition xf9 :: ftensor where
  "xf9 = FTensor [1, 5, 1] [Fin (10 ^ 38), Fin 1, Fin 1, Fin 1, Fin 1]"

definition xf2 :: ftensor where
  "xf2 = FTensor [2, 5, 1] [Fin 1, Fin 1, Fin 1, Fin 1, Fin 1, Fin 2, Fin 2, Fin 2, Fin 2, Fin 2]"

section \<open>The disabled node\<close>

text \<open>
  C2: with \<open>enabled\<close> false, \<open>apply\<close> returns the very container it was given, on a
  heap it has not touched, whatever the address holds: a dictionary without the
  key, a dictionary whose key is bound to an array of any rank or band count, or no
  dictionary at all. No check runs and no error is returned.
\<close>

theorem apply_disabled_identity: "apply_node self h image_embeds False = Inr (h, image_embeds)"
  by (simp add: apply_node_def)

theorem apply_disabled_identity_witness:
  "apply_node HuMoLipsyncSuppress h4 0 False = Inr (h4, 0) \<and>
   apply_node HuMoLipsyncSuppress h3 0 False = Inr (h3, 0) \<and>
   apply_node HuMoLipsyncSuppress h3 1 False = Inr (h3, 1)"
  using apply_disabled_identity[of HuMoLipsyncSuppress h4 0]
    apply_disabled_identity[of HuMoLipsyncSuppress h3 0]
    apply_disabled_identity[of HuMoLipsyncSuppress h3 1]
  by simp

section \<open>The temporal smoother\<close>

lemma concat_nth_block:
  "\<forall>ys\<in>set xss. length ys = n \<Longrightarrow> t < length xss \<Longrightarrow> j < n \<Longrightarrow>
   concat xss ! (t * n + j) = xss ! t ! j"
proof (induction xss arbitrary: t)
  case Nil then show ?case by simp
next
  case (Cons ys xss)
  show ?case
  proof (cases t)
    case 0 with Cons.prems show ?thesis by (simp add: nth_append)
  next
    case (Suc t')
    with Cons.prems have "concat xss ! (t' * n + j) = xss ! t' ! j"
      by (intro Cons.IH) auto
    moreover have "Suc t' * n + j = n + (t' * n + j)" by simp
    ultimately show ?thesis using Suc Cons.prems by (simp add: nth_append del: mult_Suc)
  qed
qed

lemma concat_length_block:
  "\<forall>ys\<in>set xss. length ys = n \<Longrightarrow> length (concat xss) = length xss * n"
  by (induction xss) auto

lemma ema_inv_init:
  assumes "prod_list (tl (shape x)) \<le> length (vals x)"
  shows "ema_inv beta x (Suc 0) (select0 x 0, [select0 x 0])"
  using assms by (simp add: ema_inv_def select0_def Let_def)

lemma ema_inv_step:
  assumes inv: "ema_inv beta x k (s, out_seq)" and k: "0 < k"
    and len: "Suc k * prod_list (tl (shape x)) \<le> length (vals x)"
  shows "ema_inv beta x (Suc k)
           (ema_step beta (1 - beta) s (select0 x k),
            out_seq @ [ema_step beta (1 - beta) s (select0 x k)])"
proof -
  define n where "n = prod_list (tl (shape x))"
  obtain k' where k': "k = Suc k'" using k by (cases k) auto
  from inv have lo: "length out_seq = k" and s: "s = last out_seq"
    and old: "\<And>t. t < k \<Longrightarrow> shape (out_seq ! t) = tl (shape x) \<and> length (vals (out_seq ! t)) = n \<and>
         (\<forall>j<n. vals (out_seq ! t) ! j = ema_spec beta n (vals x) t j)"
    by (auto simp: ema_inv_def Let_def n_def)
  have "out_seq \<noteq> []" using lo k' by auto
  then have s_eq: "s = out_seq ! k'" using s lo k' by (simp add: last_conv_nth)
  have s_props: "shape s = tl (shape x)" "length (vals s) = n"
    "\<And>j. j < n \<Longrightarrow> vals s ! j = ema_spec beta n (vals x) k' j"
    using old[of k'] k' s_eq by auto
  have xk_len: "length (vals (select0 x k)) = n"
    using len by (simp add: select0_def n_def Let_def)
  have xk_nth: "\<And>j. j < n \<Longrightarrow> vals (select0 x k) ! j = vals x ! (k * n + j)"
    using len by (simp add: select0_def n_def Let_def)
  let ?s' = "ema_step beta (1 - beta) s (select0 x k)"
  have s'_shape: "shape ?s' = tl (shape x)" by (simp add: ema_step_def s_props)
  have s'_len: "length (vals ?s') = n" by (simp add: ema_step_def s_props xk_len)
  have s'_nth: "\<And>j. j < n \<Longrightarrow> vals ?s' ! j = ema_spec beta n (vals x) k j"
    using s_props xk_len xk_nth k' by (simp add: ema_step_def)
  show ?thesis
    unfolding ema_inv_def Let_def n_def[symmetric]
    using lo old s'_shape s'_len s'_nth
    by (auto simp: nth_append less_Suc_eq)
qed

lemma ema_loop_snoc:
  "ema_loop beta one_m x (ts @ [t]) st =
     (let (s, out_seq) = ema_loop beta one_m x ts st;
          s' = ema_step beta one_m s (select0 x t)
      in (s', out_seq @ [s']))"
  by (simp add: ema_loop_def split_def Let_def)

lemma ema_loop_inv:
  assumes "m * prod_list (tl (shape x)) \<le> length (vals x)" and "0 < m"
  shows "ema_inv beta x m (ema_loop beta (1 - beta) x [1..<m] (select0 x 0, [select0 x 0]))"
  using assms
proof (induction m)
  case 0 then show ?case by simp
next
  case (Suc m)
  show ?case
  proof (cases "m = 0")
    case True
    with Suc.prems show ?thesis by (simp add: ema_loop_def ema_inv_init)
  next
    case False
    then have up: "[1..<Suc m] = [1..<m] @ [m]" by simp
    from Suc.prems have "m * prod_list (tl (shape x)) \<le> length (vals x)" by simp
    with Suc.IH False
    have inv: "ema_inv beta x m (ema_loop beta (1 - beta) x [1..<m] (select0 x 0, [select0 x 0]))"
      by simp
    obtain s out_seq where st: "ema_loop beta (1 - beta) x [1..<m] (select0 x 0, [select0 x 0]) = (s, out_seq)"
      by (cases "ema_loop beta (1 - beta) x [1..<m] (select0 x 0, [select0 x 0])")
    show ?thesis
      unfolding up ema_loop_snoc st
      using ema_inv_step[OF inv[unfolded st] _ Suc.prems(1)] False by (simp add: Let_def)
  qed
qed

lemma x_smooth_loop:
  assumes wf: "wf_tensor x" and sh: "shape x = [T, B, C]" and T: "1 < T"
    and b: "0 < PRESET_EMA_BETA self"
  shows "shape (x_smooth self x) = shape x"
    and "length (vals (x_smooth self x)) = T * (B * C)"
    and "\<And>t j. t < T \<Longrightarrow> j < B * C \<Longrightarrow>
           vals (x_smooth self x) ! (t * (B * C) + j) =
             ema_spec (PRESET_EMA_BETA self) (B * C) (vals x) t j"
proof -
  let ?beta = "PRESET_EMA_BETA self"
  let ?st = "ema_loop ?beta (1 - ?beta) x [1..<T] (select0 x 0, [select0 x 0])"
  have n: "prod_list (tl (shape x)) = B * C" by (simp add: sh)
  have len: "length (vals x) = T * (B * C)" using wf by (simp add: wf_tensor_def sh)
  have "ema_inv ?beta x T ?st"
    using ema_loop_inv[of T x ?beta] T len n by simp
  then have lo: "length (snd ?st) = T"
    and el: "\<And>t. t < T \<Longrightarrow> shape (snd ?st ! t) = [B, C] \<and> length (vals (snd ?st ! t)) = B * C \<and>
         (\<forall>j<B * C. vals (snd ?st ! t) ! j = ema_spec ?beta (B * C) (vals x) t j)"
    by (auto simp: ema_inv_def Let_def n sh)
  have xs: "x_smooth self x = stack (snd ?st)"
    using T b by (simp add: x_smooth_def sh Let_def)
  have ne: "snd ?st \<noteq> []" using lo T by auto
  have "shape (hd (snd ?st)) = [B, C]" using el[of 0] T ne by (simp add: hd_conv_nth)
  then show "shape (x_smooth self x) = shape x" using lo by (simp add: xs stack_def sh)
  have blocks: "\<forall>ys\<in>set (map vals (snd ?st)). length ys = B * C"
    using el lo by (auto simp: in_set_conv_nth)
  show "length (vals (x_smooth self x)) = T * (B * C)"
    using concat_length_block[OF blocks] lo by (simp add: xs stack_def)
  fix t j assume t: "t < T" and j: "j < B * C"
  have "concat (map vals (snd ?st)) ! (t * (B * C) + j) = map vals (snd ?st) ! t ! j"
    using concat_nth_block[OF blocks _ j, of t] t lo by simp
  then show "vals (x_smooth self x) ! (t * (B * C) + j) = ema_spec ?beta (B * C) (vals x) t j"
    using el[OF t] j t lo by (simp add: xs stack_def)
qed

lemma x_smooth_id:
  "\<not> (1 < shape x ! 0 \<and> 0 < PRESET_EMA_BETA self) \<Longrightarrow> x_smooth self x = x"
  by (auto simp: x_smooth_def)

lemma x_smooth_shape:
  assumes "wf_tensor x" and "shape x = [T, B, C]"
  shows "shape (x_smooth self x) = shape x \<and> length (vals (x_smooth self x)) = length (vals x)"
proof (cases "1 < T \<and> 0 < PRESET_EMA_BETA self")
  case True
  with x_smooth_loop(1,2)[OF assms, of self] assms show ?thesis
    by (simp add: wf_tensor_def)
next
  case False
  then show ?thesis using x_smooth_id[of x self] assms by simp
qed

text \<open>
  C1: on a well-formed array of shape \<open>[T, B, C]\<close>, with more than one frame and a
  positive \<open>PRESET_EMA_BETA\<close>, the smoother returns a well-formed array of the same
  shape whose frame \<open>t\<close> is \<open>s\<^sub>t\<close> of the recurrence \<open>s\<^sub>0 = x\<^sub>0\<close>,
  \<open>s\<^sub>t = beta * s\<^sub>t\<^sub>-\<^sub>1 + (1 - beta) * x\<^sub>t\<close>, entry by entry; with one frame, or with a
  \<open>PRESET_EMA_BETA\<close> that is not positive, it returns its input; and whenever there
  is a frame 0, frame 0 of the result is frame 0 of the input.
\<close>

theorem x_smooth_recurrence:
  assumes "wf_tensor x" and "shape x = [T, B, C]"
  shows "(1 < T \<and> 0 < PRESET_EMA_BETA self \<longrightarrow>
            shape (x_smooth self x) = shape x \<and> wf_tensor (x_smooth self x) \<and>
            (\<forall>t<T. \<forall>j<B * C. vals (x_smooth self x) ! (t * (B * C) + j) =
               ema_spec (PRESET_EMA_BETA self) (B * C) (vals x) t j)) \<and>
         (T = 1 \<or> PRESET_EMA_BETA self \<le> 0 \<longrightarrow> x_smooth self x = x) \<and>
         (1 \<le> T \<longrightarrow> select0 (x_smooth self x) 0 = select0 x 0)"
proof (intro conjI impI)
  assume a: "1 < T \<and> 0 < PRESET_EMA_BETA self"
  note L = x_smooth_loop[OF assms, of self]
  from a show "shape (x_smooth self x) = shape x" using L(1) by simp
  from a show "wf_tensor (x_smooth self x)" using L(1,2) assms(2) by (simp add: wf_tensor_def)
  from a show "\<forall>t<T. \<forall>j<B * C. vals (x_smooth self x) ! (t * (B * C) + j) =
               ema_spec (PRESET_EMA_BETA self) (B * C) (vals x) t j" using L(3) by simp
next
  assume "T = 1 \<or> PRESET_EMA_BETA self \<le> 0"
  then show "x_smooth self x = x" using assms(2) by (intro x_smooth_id) auto
next
  assume T: "1 \<le> T"
  show "select0 (x_smooth self x) 0 = select0 x 0"
  proof (cases "1 < T \<and> 0 < PRESET_EMA_BETA self")
    case False
    then show ?thesis using x_smooth_id[of x self] assms(2) by simp
  next
    case True
    note L = x_smooth_loop[OF assms, of self]
    have len: "length (vals x) = T * (B * C)" using assms by (simp add: wf_tensor_def)
    have le: "B * C \<le> T * (B * C)" using T by simp
    have "take (B * C) (vals (x_smooth self x)) = take (B * C) (vals x)"
    proof (rule nth_equalityI)
      show "length (take (B * C) (vals (x_smooth self x))) = length (take (B * C) (vals x))"
        using L(2) True len by simp
    next
      fix j assume "j < length (take (B * C) (vals (x_smooth self x)))"
      then have j: "j < B * C" by simp
      from L(3)[of 0 j] True j show "take (B * C) (vals (x_smooth self x)) ! j = take (B * C) (vals x) ! j"
        by simp
    qed
    then show ?thesis using L(1) True assms(2) by (simp add: select0_def)
  qed
qed

theorem x_smooth_recurrence_witness:
  "wf_tensor x1 \<and> shape x1 = [2, 1, 2] \<and> 0 < PRESET_EMA_BETA HuMoLipsyncSuppress \<and>
   vals (x_smooth HuMoLipsyncSuppress x1) ! (1 * (1 * 2) + 0) = 11 / 10 \<and>
   select0 (x_smooth HuMoLipsyncSuppress x1) 0 = Tensor [1, 2] [1, 1]"
proof -
  have wf: "wf_tensor x1" by (simp add: wf_tensor_def x1_def)
  have sh: "shape x1 = [2, 1, 2]" by (simp add: x1_def)
  have b: "0 < PRESET_EMA_BETA HuMoLipsyncSuppress" by (simp add: HuMoLipsyncSuppress_def)
  have sp: "ema_spec (PRESET_EMA_BETA HuMoLipsyncSuppress) (1 * 2) (vals x1) 1 0 = 11 / 10"
    by (simp add: HuMoLipsyncSuppress_def x1_def)
  have s0: "select0 x1 0 = Tensor [1, 2] [1, 1]" by (simp add: select0_def x1_def)
  note th = x_smooth_recurrence[OF wf sh, of HuMoLipsyncSuppress]
  from th b have "\<forall>t<2. \<forall>j<1 * 2. vals (x_smooth HuMoLipsyncSuppress x1) ! (t * (1 * 2) + j) =
      ema_spec (PRESET_EMA_BETA HuMoLipsyncSuppress) (1 * 2) (vals x1) t j" by simp
  then have "1 < (2::nat) \<longrightarrow> (\<forall>j<1 * 2. vals (x_smooth HuMoLipsyncSuppress x1) ! (1 * (1 * 2) + j) =
      ema_spec (PRESET_EMA_BETA HuMoLipsyncSuppress) (1 * 2) (vals x1) 1 j)" by (rule spec)
  then have "(0::nat) < 1 * 2 \<longrightarrow> vals (x_smooth HuMoLipsyncSuppress x1) ! (1 * (1 * 2) + 0) =
      ema_spec (PRESET_EMA_BETA HuMoLipsyncSuppress) (1 * 2) (vals x1) 1 0"
    by (drule_tac mp, simp, drule_tac spec[of _ 0], simp)
  then have e: "vals (x_smooth HuMoLipsyncSuppress x1) ! (1 * (1 * 2) + 0) = 11 / 10"
    unfolding sp by simp
  from th have f: "select0 (x_smooth HuMoLipsyncSuppress x1) 0 = select0 x1 0" by simp
  show ?thesis using wf sh b e f s0 by simp
qed

section \<open>The checks of apply\<close>

lemma lookup_append:
  "lookup h p = Some ob \<Longrightarrow> lookup (h @ h') p = Some ob"
  by (auto simp: lookup_def nth_append split: if_splits)

lemma apply_node_enabled:
  assumes "lookup h c = Some (DictObj d)" and "d key = Some p"
    and "lookup h p = Some (TensorObj x)" and "ndim x = 3" and "shape x ! 1 = 5"
    and "length (PRESET_GAINS self) = 5"
  shows "apply_node self h c True =
           Inr (h @ [DictObj (d(key \<mapsto> Suc (length h))), TensorObj (x_mixed self x)], length h)"
  using assms lookup_append[OF assms(3), of "[DictObj d]"]
  by (simp add: apply_node_def alloc_def)

text \<open>
  C3: when the container holds the key and \<open>enabled\<close> is true, an array whose rank
  is not 3, or whose rank is 3 and whose axis 1 is not 5, makes \<open>apply\<close> raise the
  \<^verbatim>\<open>ValueError\<close> of the shape check, which carries the shape of the array as it is.
  Nothing is computed and nothing is returned.
\<close>

theorem apply_shape_error:
  assumes "lookup h c = Some (DictObj d)" and "d key = Some p"
    and "lookup h p = Some (TensorObj x)"
    and "ndim x \<noteq> 3 \<or> (ndim x = 3 \<and> shape x ! 1 \<noteq> 5)"
  shows "apply_node self h c True = Inl (ValueError_shape (shape x))"
  using assms lookup_append[OF assms(3), of "[DictObj d]"]
  by (auto simp: apply_node_def alloc_def)

theorem apply_shape_error_witness:
  "lookup h3 0 = Some (DictObj [key \<mapsto> 1]) \<and> [key \<mapsto> (1::nat)] key = Some 1 \<and>
   lookup h3 1 = Some (TensorObj (Tensor [2, 3] [1, 2, 3, 4, 5, 6])) \<and>
   ndim (Tensor [2, 3] [1, 2, 3, 4, 5, 6]) \<noteq> 3 \<and>
   apply_node HuMoLipsyncSuppress h3 0 True = Inl (ValueError_shape [2, 3])"
proof -
  have a: "lookup h3 0 = Some (DictObj [key \<mapsto> 1])" by (simp add: lookup_def h3_def)
  have b: "[key \<mapsto> (1::nat)] key = Some 1" by simp
  have c: "lookup h3 1 = Some (TensorObj (Tensor [2, 3] [1, 2, 3, 4, 5, 6]))"
    by (simp add: lookup_def h3_def)
  have d: "ndim (Tensor [2, 3] [1, 2, 3, 4, 5, 6]) \<noteq> 3" by (simp add: ndim_def)
  from apply_shape_error[OF a b c, of HuMoLipsyncSuppress] d a b c show ?thesis by simp
qed

text \<open>
  C4: when the container does not hold the key and \<open>enabled\<close> is true, \<open>apply\<close>
  raises the \<^verbatim>\<open>ValueError\<close> of the missing key: there is no result and no default.
\<close>

theorem apply_missing_key:
  assumes "lookup h c = Some (DictObj d)" and "d key = None"
  shows "apply_node self h c True = Inl ValueError_missing_key"
  using assms by (simp add: apply_node_def alloc_def)

theorem apply_missing_key_witness:
  "lookup h4 0 = Some (DictObj Map.empty) \<and>
   apply_node HuMoLipsyncSuppress h4 0 True = Inl ValueError_missing_key"
proof -
  have a: "lookup h4 0 = Some (DictObj Map.empty)" by (simp add: lookup_def h4_def)
  from apply_missing_key[OF a, of HuMoLipsyncSuppress] a show ?thesis by simp
qed

section \<open>The returned container\<close>

text \<open>
  C5: on a container whose key is bound to an array of rank 3 with five bands,
  \<open>apply\<close> with \<open>enabled\<close> true returns a new dictionary object. Its key is bound to
  a new array object holding the result of the pipeline, every other key is bound
  to the very object it was bound to, and every object of the caller's heap, the
  container and the array among them, is what it was.
\<close>

theorem apply_copy_on_write:
  assumes "lookup h c = Some (DictObj d)" and "d key = Some p"
    and "lookup h p = Some (TensorObj x)" and "ndim x = 3" and "shape x ! 1 = 5"
    and "length (PRESET_GAINS self) = 5"
  shows "\<exists>h' c' q d'.
           apply_node self h c True = Inr (h', c') \<and>
           lookup h c' = None \<and> lookup h q = None \<and>
           lookup h' c' = Some (DictObj d') \<and>
           d' key = Some q \<and> lookup h' q = Some (TensorObj (x_mixed self x)) \<and>
           (\<forall>k. k \<noteq> key \<longrightarrow> d' k = d k) \<and>
           (\<forall>a. lookup h a \<noteq> None \<longrightarrow> lookup h' a = lookup h a) \<and>
           lookup h' c = Some (DictObj d) \<and> lookup h' p = Some (TensorObj x)"
proof -
  let ?h' = "h @ [DictObj (d(key \<mapsto> Suc (length h))), TensorObj (x_mixed self x)]"
  have "apply_node self h c True = Inr (?h', length h)"
    by (rule apply_node_enabled[OF assms])
  moreover have "lookup h (length h) = None" "lookup h (Suc (length h)) = None"
    by (simp_all add: lookup_def)
  moreover have "lookup ?h' (length h) = Some (DictObj (d(key \<mapsto> Suc (length h))))"
    by (simp add: lookup_def)
  moreover have "lookup ?h' (Suc (length h)) = Some (TensorObj (x_mixed self x))"
    by (simp add: lookup_def nth_append)
  moreover have "\<forall>a. lookup h a \<noteq> None \<longrightarrow> lookup ?h' a = lookup h a"
    by (auto simp: lookup_def nth_append)
  moreover have "lookup ?h' c = Some (DictObj d)" "lookup ?h' p = Some (TensorObj x)"
    using assms(1,3) by (simp_all add: lookup_append)
  ultimately show ?thesis by (intro exI[of _ ?h'] exI[of _ "length h"] exI[of _ "Suc (length h)"]
      exI[of _ "d(key \<mapsto> Suc (length h))"]) simp
qed

theorem apply_copy_on_write_witness:
  "lookup h6 0 = Some (DictObj [key \<mapsto> 1]) \<and> [key \<mapsto> (1::nat)] key = Some 1 \<and>
   lookup h6 1 = Some (TensorObj x6) \<and> ndim x6 = 3 \<and> shape x6 ! 1 = 5 \<and>
   length (PRESET_GAINS HuMoLipsyncSuppress) = 5 \<and>
   (\<exists>h' c'. apply_node HuMoLipsyncSuppress h6 0 True = Inr (h', c') \<and>
      lookup h6 c' = None \<and>
      lookup h' 0 = Some (DictObj [key \<mapsto> 1]) \<and> lookup h' 1 = Some (TensorObj x6))"
proof -
  have a: "lookup h6 0 = Some (DictObj [key \<mapsto> 1])" by (simp add: lookup_def h6_def)
  have b: "[key \<mapsto> (1::nat)] key = Some 1" by simp
  have c: "lookup h6 1 = Some (TensorObj x6)" by (simp add: lookup_def h6_def)
  have d: "ndim x6 = 3" by (simp add: ndim_def x6_def)
  have e: "shape x6 ! 1 = 5" by (simp add: x6_def)
  have f: "length (PRESET_GAINS HuMoLipsyncSuppress) = 5" by (simp add: HuMoLipsyncSuppress_def)
  from apply_copy_on_write[OF a b c d e f]
  have "\<exists>h' c'. apply_node HuMoLipsyncSuppress h6 0 True = Inr (h', c') \<and>
      lookup h6 c' = None \<and>
      lookup h' 0 = Some (DictObj [key \<mapsto> 1]) \<and> lookup h' 1 = Some (TensorObj x6)"
    by blast
  with a b c d e f show ?thesis by blast
qed

lemma x_mixed_empty:
  assumes "vals x = []" and "shape x ! 0 = 0"
  shows "x_mixed self x = Tensor (shape x) []"
proof -
  have s: "x_smooth self x = x" using assms(2) by (simp add: x_smooth_def)
  have e: "vals (x_edit self x x) = []" "shape (x_edit self x x) = shape x"
    using assms(1) by (simp_all add: x_edit_def mul_gains_def mul_rows_def Let_def)
  have b: "blend self x (x_edit self x x) = Tensor (shape x) []"
    using assms(1) by (simp add: blend_def)
  then have p: "pre_clamp self x = Tensor (shape x) []"
    by (simp add: pre_clamp_def s global_gain_def)
  show ?thesis by (simp add: x_mixed_def p clamp_stage_def clamp_def)
qed

text \<open>
  C10: an array of shape \<open>[0, 5, C]\<close> passes the shape check, which looks at the rank
  and at axis 1 only: \<open>apply\<close> raises nothing and returns a container whose key is
  bound to the empty array of shape \<open>[0, 5, C]\<close>.
\<close>

theorem apply_zero_frames:
  assumes "lookup h c = Some (DictObj d)" and "d key = Some p"
    and "lookup h p = Some (TensorObj x)" and "shape x = [0, 5, C]" and "wf_tensor x"
    and "length (PRESET_GAINS self) = 5"
  shows "\<exists>h' c' q d'.
           apply_node self h c True = Inr (h', c') \<and>
           lookup h' c' = Some (DictObj d') \<and> d' key = Some q \<and>
           lookup h' q = Some (TensorObj (Tensor [0, 5, C] []))"
proof -
  have v: "vals x = []" using assms(4,5) by (simp add: wf_tensor_def)
  have m: "x_mixed self x = Tensor [0, 5, C] []"
    using x_mixed_empty[OF v, of self] assms(4) by simp
  have n: "ndim x = 3" "shape x ! 1 = 5" using assms(4) by (simp_all add: ndim_def)
  let ?h' = "h @ [DictObj (d(key \<mapsto> Suc (length h))), TensorObj (x_mixed self x)]"
  have "apply_node self h c True = Inr (?h', length h)"
    by (rule apply_node_enabled[OF assms(1-3) n assms(6)])
  moreover have "lookup ?h' (length h) = Some (DictObj (d(key \<mapsto> Suc (length h))))"
    by (simp add: lookup_def)
  moreover have "lookup ?h' (Suc (length h)) = Some (TensorObj (Tensor [0, 5, C] []))"
    by (simp add: lookup_def nth_append m)
  ultimately show ?thesis by (intro exI[of _ ?h'] exI[of _ "length h"] exI[of _ "Suc (length h)"]
      exI[of _ "d(key \<mapsto> Suc (length h))"]) simp
qed

theorem apply_zero_frames_witness:
  "lookup h10 0 = Some (DictObj [key \<mapsto> 1]) \<and> [key \<mapsto> (1::nat)] key = Some 1 \<and>
   lookup h10 1 = Some (TensorObj (Tensor [0, 5, 4] [])) \<and>
   wf_tensor (Tensor [0, 5, 4] []) \<and> length (PRESET_GAINS HuMoLipsyncSuppress) = 5 \<and>
   (\<exists>h' c' q d'. apply_node HuMoLipsyncSuppress h10 0 True = Inr (h', c') \<and>
      lookup h' c' = Some (DictObj d') \<and> d' key = Some q \<and>
      lookup h' q = Some (TensorObj (Tensor [0, 5, 4] [])))"
proof -
  have a: "lookup h10 0 = Some (DictObj [key \<mapsto> 1])" by (simp add: lookup_def h10_def)
  have b: "[key \<mapsto> (1::nat)] key = Some 1" by simp
  have c: "lookup h10 1 = Some (TensorObj (Tensor [0, 5, 4] []))" by (simp add: lookup_def h10_def)
  have d: "shape (Tensor [0, 5, 4] []) = [0, 5, 4]" by simp
  have e: "wf_tensor (Tensor [0, 5, 4] [])" by (simp add: wf_tensor_def)
  have f: "length (PRESET_GAINS HuMoLipsyncSuppress) = 5" by (simp add: HuMoLipsyncSuppress_def)
  from apply_zero_frames[OF a b c d e f] a b c e f show ?thesis by blast
qed

section \<open>The blend\<close>

lemma overflow_at_gt_1: "1 < overflow_at dt"
  by (cases dt) simp_all

lemma rnd_0: "rnd dt 0 = Fin 0"
  using overflow_at_gt_1[of dt] by (simp add: rnd_def)

lemma rnd_1: "rnd dt 1 = Fin 1"
  using overflow_at_gt_1[of dt] by (simp add: rnd_def)

lemma rnd_in_range: "in_range dt (rnd dt r)"
  by (auto simp: rnd_def)

lemma rnd_id: "in_range dt (Fin r) \<Longrightarrow> rnd dt r = Fin r"
  by (auto simp: rnd_def)

lemma fmul_in_range: "in_range dt (fmul dt a b)"
  by (cases "(dt, a, b)" rule: fmul.cases) (simp_all add: rnd_in_range)

lemma fmul_1_left: "in_range dt v \<Longrightarrow> fmul dt (Fin 1) v = v"
  by (cases v) (simp_all add: rnd_id)

lemma fadd_0_left: "in_range dt v \<Longrightarrow> fadd dt (Fin 0) v = v"
  by (cases v) (simp_all add: rnd_id)

lemma fadd_0_right: "in_range dt v \<Longrightarrow> fadd dt v (Fin 0) = v"
  by (cases v) (simp_all add: rnd_id)

lemma fmul_0_finite: "finite_f v \<Longrightarrow> fmul dt (Fin 0) v = Fin 0"
  by (cases v) (simp_all add: rnd_0)

lemma blend_entry_full:
  assumes "finite_f u" and "in_range dt v"
  shows "fadd dt (fmul dt (fsub dt (Fin 1) (rnd dt 1)) u) (fmul dt (rnd dt 1) v) = v"
  using assms by (simp add: rnd_1 fsub_def rnd_0 fmul_0_finite fmul_1_left fadd_0_left)

lemma blend_entry_zero:
  assumes "in_range dt u" and "finite_f v"
  shows "fadd dt (fmul dt (fsub dt (Fin 1) (rnd dt 0)) u) (fmul dt (rnd dt 0) v) = u"
  using assms by (simp add: rnd_1 fsub_def rnd_0 fmul_0_finite fmul_1_left fadd_0_right)


lemma map2_right:
  assumes "length xs = length ys" and "list_all P xs" and "list_all Q ys"
    and "\<And>u v. P u \<Longrightarrow> Q v \<Longrightarrow> f u v = v"
  shows "map2 f xs ys = ys"
  using assms(1-3) by (induction xs ys rule: list_induct2) (simp_all add: assms(4))

lemma map2_left:
  assumes "length xs = length ys" and "list_all P xs" and "list_all Q ys"
    and "\<And>u v. P u \<Longrightarrow> Q v \<Longrightarrow> f u v = u"
  shows "map2 f xs ys = xs"
  using assms(1-3) by (induction xs ys rule: list_induct2) (simp_all add: assms(4))

lemma select0_f_frame:
  assumes "Suc t * prod_list (tl (fshape x)) \<le> length (fvals x)"
  shows "frame_ok x (select0_f x t)"
proof -
  from assms
  have "prod_list (tl (fshape x)) \<le> length (fvals x) - t * prod_list (tl (fshape x))"
    by (metis add_le_imp_le_diff mult_Suc)
  then have "min (length (fvals x) - t * prod_list (tl (fshape x))) (prod_list (tl (fshape x)))
      = prod_list (tl (fshape x))"
    by (rule min_absorb2)
  then show ?thesis
    unfolding frame_ok_def select0_f_def Let_def by simp
qed

lemma ema_step_f_frame:
  assumes "frame_ok x s" and "frame_ok x xt"
  shows "frame_ok x (ema_step_f dt beta one_m s xt)"
  using assms unfolding frame_ok_def ema_step_f_def by simp

lemma ema_loop_f_Cons:
  "ema_loop_f dt beta one_m x (t # ts) (s, out_seq) =
     ema_loop_f dt beta one_m x ts
       (ema_step_f dt beta one_m s (select0_f x t),
        out_seq @ [ema_step_f dt beta one_m s (select0_f x t)])"
  unfolding ema_loop_f_def by (simp add: Let_def)

lemma ema_loop_f_Nil: "ema_loop_f dt beta one_m x [] st = st"
  unfolding ema_loop_f_def by simp

lemma ema_loop_f_frames:
  assumes "list_all (\<lambda>t. Suc t * prod_list (tl (fshape x)) \<le> length (fvals x)) ts"
    and "frame_ok x s" and "list_all (frame_ok x) out_seq"
  shows "length (snd (ema_loop_f dt beta one_m x ts (s, out_seq))) = length out_seq + length ts \<and>
         list_all (frame_ok x) (snd (ema_loop_f dt beta one_m x ts (s, out_seq)))"
  using assms
proof (induction ts arbitrary: s out_seq)
  case Nil
  then show ?case unfolding ema_loop_f_Nil by simp
next
  case (Cons t ts)
  let ?s' = "ema_step_f dt beta one_m s (select0_f x t)"
  from Cons.prems(1) have t: "Suc t * prod_list (tl (fshape x)) \<le> length (fvals x)"
    and ts: "list_all (\<lambda>t. Suc t * prod_list (tl (fshape x)) \<le> length (fvals x)) ts"
    by simp_all
  have s': "frame_ok x ?s'"
    by (rule ema_step_f_frame[OF Cons.prems(2) select0_f_frame[OF t]])
  have out': "list_all (frame_ok x) (out_seq @ [?s'])"
    using Cons.prems(3) s' by simp
  from Cons.IH[OF ts s' out'] show ?case
    unfolding ema_loop_f_Cons by simp
qed

lemma x_smooth_f_shape:
  assumes "wf_ftensor dt x" and "fshape x = [T, B, C]"
  shows "fshape (x_smooth_f dt self x) = fshape x \<and>
         length (fvals (x_smooth_f dt self x)) = length (fvals x)"
proof (cases "1 < T \<and> 0 < PRESET_EMA_BETA self")
  case False
  then show ?thesis using assms(2) by (auto simp: x_smooth_f_def)
next
  case True
  let ?beta = "rnd dt (PRESET_EMA_BETA self)"
  let ?s = "select0_f x 0"
  let ?out = "snd (ema_loop_f dt ?beta (fsub dt (Fin 1) ?beta) x [1..<T] (?s, [?s]))"
  have n: "prod_list (tl (fshape x)) = B * C" by (simp add: assms(2))
  have len: "length (fvals x) = T * (B * C)" using assms by (simp add: wf_ftensor_def)
  have le: "B * C \<le> T * (B * C)" using True by simp
  have fr: "list_all (\<lambda>t. Suc t * prod_list (tl (fshape x)) \<le> length (fvals x)) [1..<T]"
    unfolding n len list_all_iff by (auto simp del: mult_Suc)
  have s0: "frame_ok x ?s"
    by (rule select0_f_frame) (simp add: n len le)
  have s1: "list_all (frame_ok x) [?s]" using s0 by simp
  from ema_loop_f_frames[OF fr s0 s1, of dt ?beta "fsub dt (Fin 1) ?beta"] True
  have lo: "length ?out = T" and el: "list_all (frame_ok x) ?out"
    by simp_all
  have xs: "x_smooth_f dt self x = stack_f ?out"
    using True by (simp add: x_smooth_f_def assms(2) Let_def)
  have ne: "?out \<noteq> []" using lo True by auto
  then have "frame_ok x (hd ?out)" using el by (simp add: list_all_iff)
  then have "fshape (hd ?out) = [B, C]" by (simp add: frame_ok_def assms(2))
  then have a: "fshape (x_smooth_f dt self x) = fshape x"
    using lo by (simp add: xs stack_f_def assms(2))
  have "\<forall>ys\<in>set (map fvals ?out). length ys = B * C"
    using el by (auto simp: list_all_iff frame_ok_def n)
  from concat_length_block[OF this] lo
  have b: "length (fvals (x_smooth_f dt self x)) = length (fvals x)"
    by (simp add: xs stack_f_def len)
  from a b show ?thesis by simp
qed

lemma x_edit_f_shape:
  "fshape (x_edit_f R dt self x xs) = fshape xs"
  "length (fvals (x_edit_f R dt self x xs)) = length (fvals xs)"
  "list_all (in_range dt) (fvals (x_edit_f R dt self x xs))"
  by (simp_all add: x_edit_f_def mul_gains_f_def mul_rows_f_def Let_def list_all_iff
      fmul_in_range)

lemma preset_alpha: "PRESET_ALPHA_MIX HuMoLipsyncSuppress = 1"
  by (simp add: HuMoLipsyncSuppress_def)

lemma preset_gains: "PRESET_GAINS HuMoLipsyncSuppress = [4, 4, 1 / 2, 1 / 100, 1 / 100]"
  by (simp add: HuMoLipsyncSuppress_def)

lemma preset_rms_off: "\<not> PRESET_PRESERVE_RMS HuMoLipsyncSuppress"
  by (simp add: HuMoLipsyncSuppress_def)

lemma node9_fields:
  "PRESET_ALPHA_MIX node9 = 0" "PRESET_GLOBAL_GAIN node9 = 1" "PRESET_CLAMP_STD node9 = 0"
  "\<not> PRESET_PRESERVE_RMS node9" "PRESET_GAINS node9 = [4, 4, 1 / 2, 1 / 100, 1 / 100]"
  "PRESET_EMA_BETA node9 = 9 / 10"
  by (simp_all add: node9_def HuMoLipsyncSuppress_def)

lemma edit8: "x_edit_f R Float32 HuMoLipsyncSuppress xf8 (x_smooth_f Float32 HuMoLipsyncSuppress xf8)
    = FTensor [1, 5, 1] [PInf, Fin 4, Fin (1 / 2), Fin (1 / 100), Fin (1 / 100)]"
  by (simp add: x_edit_f_def preset_rms_off preset_gains x_smooth_f_def mul_gains_f_def xf8_def
      rnd_def upt_conv_Cons)

lemma blend8: "blend_f Float32 HuMoLipsyncSuppress xf8
      (FTensor [1, 5, 1] [PInf, Fin 4, Fin (1 / 2), Fin (1 / 100), Fin (1 / 100)])
    = FTensor [1, 5, 1] [NaN, Fin 4, Fin (1 / 2), Fin (1 / 100), Fin (1 / 100)]"
  by (simp add: blend_f_def preset_alpha xf8_def rnd_def fsub_def)

lemma mixed9: "x_mixed_f R Float32 node9 xf9 = FTensor [1, 5, 1] [NaN, Fin 1, Fin 1, Fin 1, Fin 1]"
  by (simp add: x_mixed_f_def clamp_stage_f_def global_gain_f_def blend_f_def x_edit_f_def
      node9_fields x_smooth_f_def mul_gains_f_def xf9_def rnd_def fsub_def upt_conv_Cons)

lemma wf_xf2: "wf_ftensor Float32 xf2"
  by (simp add: wf_ftensor_def xf2_def)

lemma finite_xf2: "list_all finite_f (fvals xf2)"
  by (simp add: xf2_def)

lemma smooth2: "x_smooth_f Float32 node9 xf2 =
    FTensor [2, 5, 1] [Fin 1, Fin 1, Fin 1, Fin 1, Fin 1,
      Fin (11 / 10), Fin (11 / 10), Fin (11 / 10), Fin (11 / 10), Fin (11 / 10)]"
  by (simp add: x_smooth_f_def node9_fields ema_loop_f_def select0_f_def stack_f_def ema_step_f_def
      xf2_def rnd_def fsub_def upt_conv_Cons Let_def)

lemma edit2: "x_edit_f R Float32 node9 xf2 (x_smooth_f Float32 node9 xf2) =
    FTensor [2, 5, 1] [Fin 4, Fin 4, Fin (1 / 2), Fin (1 / 100), Fin (1 / 100),
      Fin (44 / 10), Fin (44 / 10), Fin (55 / 100), Fin (11 / 1000), Fin (11 / 1000)]"
  unfolding smooth2
  by (simp add: x_edit_f_def node9_fields mul_gains_f_def rnd_def upt_conv_Cons)

text \<open>
  C8, as the specification states it, for every input array: in \<open>float32\<close>, under
  the preset (\<open>PRESET_ALPHA_MIX = 1\<close>), the input \<open>[inf, 1, 1, 1, 1]\<close> of shape
  \<open>[1, 5, 1]\<close> has the edited array \<open>[inf, 4, 0.5, 0.01, 0.01]\<close>, and the blend is
  \<open>0 * inf + 1 * inf\<close> in its first element, a NaN: the blend is not the edited
  array, whatever the functions of torch return.
\<close>

theorem blend_f_inf_counterexample:
  "\<forall>R. blend_f Float32 HuMoLipsyncSuppress xf8
         (x_edit_f R Float32 HuMoLipsyncSuppress xf8 (x_smooth_f Float32 HuMoLipsyncSuppress xf8))
       \<noteq> x_edit_f R Float32 HuMoLipsyncSuppress xf8 (x_smooth_f Float32 HuMoLipsyncSuppress xf8)"
  unfolding edit8 blend8 by simp

text \<open>
  C8, amended: with \<open>PRESET_ALPHA_MIX = 1\<close>, for every well-formed input array of
  shape \<open>[T, 5, C]\<close> whose elements are all finite, the blend of the original array
  and the edited one (after the gains, and after the RMS preservation when it is
  on) is the edited array, infinities and NaN of the edited array included.
\<close>

theorem blend_f_full:
  assumes "PRESET_ALPHA_MIX self = 1" and "wf_ftensor dt x" and "fshape x = [T, 5, C]"
    and "length (PRESET_GAINS self) = 5" and "list_all finite_f (fvals x)"
  shows "blend_f dt self x (x_edit_f R dt self x (x_smooth_f dt self x))
           = x_edit_f R dt self x (x_smooth_f dt self x)"
proof -
  let ?e = "x_edit_f R dt self x (x_smooth_f dt self x)"
  from x_smooth_f_shape[OF assms(2,3), of self]
  have sh: "fshape ?e = fshape x" and len: "length (fvals x) = length (fvals ?e)"
    by (simp_all add: x_edit_f_shape)
  have rg: "list_all (in_range dt) (fvals ?e)" by (rule x_edit_f_shape)
  have "map2 (\<lambda>u v. fadd dt (fmul dt (fsub dt (Fin 1) (rnd dt 1)) u) (fmul dt (rnd dt 1) v))
          (fvals x) (fvals ?e) = fvals ?e"
    by (rule map2_right[OF len assms(5) rg]) (rule blend_entry_full)
  then have "blend_f dt self x ?e = FTensor (fshape ?e) (fvals ?e)"
    by (simp add: blend_f_def assms(1) sh)
  then show ?thesis by simp
qed

theorem blend_f_full_witness:
  "PRESET_ALPHA_MIX HuMoLipsyncSuppress = 1 \<and> wf_ftensor Float32 xf2 \<and>
   fshape xf2 = [2, 5, 1] \<and> length (PRESET_GAINS HuMoLipsyncSuppress) = 5 \<and>
   list_all finite_f (fvals xf2) \<and>
   (\<forall>R. blend_f Float32 HuMoLipsyncSuppress xf2
          (x_edit_f R Float32 HuMoLipsyncSuppress xf2 (x_smooth_f Float32 HuMoLipsyncSuppress xf2))
        = x_edit_f R Float32 HuMoLipsyncSuppress xf2 (x_smooth_f Float32 HuMoLipsyncSuppress xf2))"
proof -
  have c: "fshape xf2 = [2, 5, 1]" by (simp add: xf2_def)
  have d: "length (PRESET_GAINS HuMoLipsyncSuppress) = 5" by (simp add: preset_gains)
  from blend_f_full[OF preset_alpha wf_xf2 c d finite_xf2] preset_alpha wf_xf2 c d finite_xf2
  show ?thesis by blast
qed

text \<open>
  C9, as the specification states it, for every input array: in \<open>float32\<close>, with
  \<open>PRESET_ALPHA_MIX = 0\<close> and the rest of the preset, the finite input
  \<open>[1e38, 1, 1, 1, 1]\<close> of shape \<open>[1, 5, 1]\<close> overflows under the gain 4 to \<open>inf\<close>,
  and the blend is \<open>1 * 1e38 + 0 * inf\<close> in its first element, a NaN: the result is
  not the input.
\<close>

theorem x_mixed_f_overflow_counterexample:
  "wf_ftensor Float32 xf9 \<and> list_all finite_f (fvals xf9) \<and>
   (\<forall>R. x_mixed_f R Float32 node9 xf9 \<noteq> xf9)"
proof -
  have "wf_ftensor Float32 xf9" by (simp add: wf_ftensor_def xf9_def)
  moreover have "list_all finite_f (fvals xf9)" by (simp add: xf9_def)
  moreover have "\<forall>R. x_mixed_f R Float32 node9 xf9 \<noteq> xf9"
    unfolding mixed9 by (simp add: xf9_def)
  ultimately show ?thesis by blast
qed

text \<open>
  C9, amended: with \<open>PRESET_ALPHA_MIX = 0\<close>, a global gain of 1 and the clamp off,
  for every well-formed input array of shape \<open>[T, 5, C]\<close> whose edited array (after
  the smoothing, the gains, and the RMS preservation when it is on) has finite
  elements only, the result of the pipeline is the input array, whatever the five
  gains, the smoothing factor and the RMS setting are.
\<close>

theorem x_mixed_f_zero_blend:
  assumes "PRESET_ALPHA_MIX self = 0" and "PRESET_GLOBAL_GAIN self = 1"
    and "PRESET_CLAMP_STD self \<le> 0" and "wf_ftensor dt x" and "fshape x = [T, 5, C]"
    and "length (PRESET_GAINS self) = 5"
    and "list_all finite_f (fvals (x_edit_f R dt self x (x_smooth_f dt self x)))"
  shows "x_mixed_f R dt self x = x"
proof -
  let ?e = "x_edit_f R dt self x (x_smooth_f dt self x)"
  from x_smooth_f_shape[OF assms(4,5), of self]
  have len: "length (fvals x) = length (fvals ?e)"
    by (simp_all add: x_edit_f_shape)
  have rg: "list_all (in_range dt) (fvals x)" using assms(4) by (simp add: wf_ftensor_def)
  have "map2 (\<lambda>u v. fadd dt (fmul dt (fsub dt (Fin 1) (rnd dt 0)) u) (fmul dt (rnd dt 0) v))
          (fvals x) (fvals ?e) = fvals x"
    by (rule map2_left[OF len rg assms(7)]) (rule blend_entry_zero)
  then have "blend_f dt self x ?e = x"
    by (simp add: blend_f_def assms(1))
  then show ?thesis using assms(2,3)
    by (simp add: x_mixed_f_def global_gain_f_def clamp_stage_f_def)
qed

theorem x_mixed_f_zero_blend_witness:
  "PRESET_ALPHA_MIX node9 = 0 \<and> PRESET_GLOBAL_GAIN node9 = 1 \<and> PRESET_CLAMP_STD node9 \<le> 0 \<and>
   wf_ftensor Float32 xf2 \<and> fshape xf2 = [2, 5, 1] \<and> length (PRESET_GAINS node9) = 5 \<and>
   (\<forall>R. list_all finite_f (fvals (x_edit_f R Float32 node9 xf2 (x_smooth_f Float32 node9 xf2))) \<and>
        x_mixed_f R Float32 node9 xf2 = xf2)"
proof -
  have c: "PRESET_CLAMP_STD node9 \<le> 0" by (simp add: node9_fields)
  have e: "fshape xf2 = [2, 5, 1]" by (simp add: xf2_def)
  have f: "length (PRESET_GAINS node9) = 5" by (simp add: node9_fields)
  have g: "list_all finite_f (fvals (x_edit_f R Float32 node9 xf2 (x_smooth_f Float32 node9 xf2)))"
    for R unfolding edit2 by simp
  have "x_mixed_f R Float32 node9 xf2 = xf2" for R
    by (rule x_mixed_f_zero_blend[OF node9_fields(1,2) c wf_xf2 e f g])
  with node9_fields(1,2) c wf_xf2 e f g show ?thesis by blast
qed

section \<open>The clamp\<close>










section \<open>The example of the specification\<close>

lemma smooth6: "x_smooth HuMoLipsyncSuppress x6 = Tensor [2, 5, 4] (replicate 20 1 @ replicate 20 (11 / 10))"
  by (simp add: x_smooth_def HuMoLipsyncSuppress_def ema_loop_def select0_def stack_def ema_step_def
      upt_conv_Cons Let_def x6_def numeral_eq_Suc)

lemma preset_switches:
  "\<not> PRESET_PRESERVE_RMS HuMoLipsyncSuppress" "PRESET_GLOBAL_GAIN HuMoLipsyncSuppress = 1"
  "\<not> 0 < PRESET_CLAMP_STD HuMoLipsyncSuppress"
  by (simp_all add: HuMoLipsyncSuppress_def)

lemma x_mixed_preset:
  "x_mixed HuMoLipsyncSuppress x =
     blend HuMoLipsyncSuppress x
       (mul_gains (x_smooth HuMoLipsyncSuppress x) (PRESET_GAINS HuMoLipsyncSuppress))"
  by (simp add: x_mixed_def pre_clamp_def clamp_stage_def global_gain_def x_edit_def
      preset_switches)

lemma mixed6:
  "x_mixed HuMoLipsyncSuppress x6 =
     Tensor [2, 5, 4]
       (replicate 8 4 @ replicate 4 (1 / 2) @ replicate 8 (1 / 100) @
        replicate 8 (44 / 10) @ replicate 4 (55 / 100) @ replicate 8 (11 / 1000))"
  unfolding x_mixed_preset by code_simp

text \<open>
  C6: the input of shape \<open>[2, 5, 4]\<close> with frame 0 all ones and frame 1 all twos, under
  the preset. The smoothed array keeps frame 0 and has \<open>1.10\<close> everywhere in frame 1.
  The result has frame 0 equal to the gains, band by band (4 in bands 0 and 1,
  \<open>0.5\<close> in band 2, \<open>0.01\<close> in bands 3 and 4), and frame 1 equal to \<open>1.10\<close> times the
  gains (\<open>4.40\<close> in band 0); \<open>apply\<close> with \<open>enabled\<close> true binds the key to it in the
  copy it returns.
\<close>

theorem spec_example:
  "x_smooth HuMoLipsyncSuppress x6 = Tensor [2, 5, 4] (replicate 20 1 @ replicate 20 (11 / 10)) \<and>
   x_mixed HuMoLipsyncSuppress x6 =
     Tensor [2, 5, 4]
       (replicate 8 4 @ replicate 4 (1 / 2) @ replicate 8 (1 / 100) @
        replicate 8 (44 / 10) @ replicate 4 (55 / 100) @ replicate 8 (11 / 1000)) \<and>
   take 4 (vals (select0 (x_mixed HuMoLipsyncSuppress x6) 1)) = replicate 4 (44 / 10) \<and>
   select0 (x_mixed HuMoLipsyncSuppress x6) 0
     = select0 (mul_gains x6 (PRESET_GAINS HuMoLipsyncSuppress)) 0 \<and>
   apply_node HuMoLipsyncSuppress h6 0 True =
     Inr (h6 @ [DictObj [key \<mapsto> 3], TensorObj (x_mixed HuMoLipsyncSuppress x6)], 2)"
proof (intro conjI)
  show "x_smooth HuMoLipsyncSuppress x6 = Tensor [2, 5, 4] (replicate 20 1 @ replicate 20 (11 / 10))"
    by (rule smooth6)
  show "x_mixed HuMoLipsyncSuppress x6 =
     Tensor [2, 5, 4]
       (replicate 8 4 @ replicate 4 (1 / 2) @ replicate 8 (1 / 100) @
        replicate 8 (44 / 10) @ replicate 4 (55 / 100) @ replicate 8 (11 / 1000))"
    by (rule mixed6)
  show "take 4 (vals (select0 (x_mixed HuMoLipsyncSuppress x6) 1)) = replicate 4 (44 / 10)"
    unfolding mixed6 by code_simp
  show "select0 (x_mixed HuMoLipsyncSuppress x6) 0
     = select0 (mul_gains x6 (PRESET_GAINS HuMoLipsyncSuppress)) 0"
    unfolding mixed6 by code_simp
  have a: "lookup h6 0 = Some (DictObj [key \<mapsto> 1])" by (simp add: lookup_def h6_def)
  have b: "[key \<mapsto> (1::nat)] key = Some 1" by simp
  have c: "lookup h6 1 = Some (TensorObj x6)" by (simp add: lookup_def h6_def)
  have d: "ndim x6 = 3" by (simp add: ndim_def x6_def)
  have e: "shape x6 ! 1 = 5" by (simp add: x6_def)
  have f: "length (PRESET_GAINS HuMoLipsyncSuppress) = 5" by (simp add: HuMoLipsyncSuppress_def)
  have l: "length h6 = 2" by (simp add: h6_def)
  show "apply_node HuMoLipsyncSuppress h6 0 True =
     Inr (h6 @ [DictObj [key \<mapsto> 3], TensorObj (x_mixed HuMoLipsyncSuppress x6)], 2)"
    unfolding apply_node_enabled[OF a b c d e f] l by simp
qed

theorem spec_example_witness:
  "vals (select0 (x_smooth HuMoLipsyncSuppress x6) 1) ! 0 = 11 / 10 \<and>
   vals (select0 (x_mixed HuMoLipsyncSuppress x6) 1) ! 0 = 44 / 10 \<and>
   vals (select0 (x_mixed HuMoLipsyncSuppress x6) 0) ! 0 = 4 \<and>
   vals (select0 (x_mixed HuMoLipsyncSuppress x6) 0) ! 16 = 1 / 100"
proof -
  note ex = spec_example
  have s: "x_smooth HuMoLipsyncSuppress x6 = Tensor [2, 5, 4] (replicate 20 1 @ replicate 20 (11 / 10))"
    using ex by (rule conjunct1)
  have m: "x_mixed HuMoLipsyncSuppress x6 =
     Tensor [2, 5, 4]
       (replicate 8 4 @ replicate 4 (1 / 2) @ replicate 8 (1 / 100) @
        replicate 8 (44 / 10) @ replicate 4 (55 / 100) @ replicate 8 (11 / 1000))"
    using ex by (elim conjE)
  show ?thesis unfolding s m by code_simp
qed

end
